theory Spec2Isabelle
  imports Main "HOL-Library.AList" "HOL-Library.Char_ord" "HOL-Library.List_Lexorder"
begin

section \<open>Python values, types and exceptions\<close>

text \<open>
  The module \<^verbatim>\<open>python_utils/flask_sqlalchemy_base.py\<close> is dynamically typed. A value
  is \<^verbatim>\<open>None\<close>, a \<^verbatim>\<open>bool\<close>, an (unbounded) \<^verbatim>\<open>int\<close>, a \<^verbatim>\<open>str\<close>, or a reference to
  a \<^verbatim>\<open>dict\<close> object living in a store. A Python \<^verbatim>\<open>dict\<close> keeps insertion order, so
  it is an association list with distinct keys.
\<close>

datatype pyval = PNone | PBool bool | PInt int | PStr string | PRef nat

datatype pytype = NoneType | TBool | TInt | TStr | TDict

type_synonym pydict = "(string \<times> pyval) list"

fun py_type :: "pyval \<Rightarrow> pytype" where
  "py_type PNone = NoneType"
| "py_type (PBool b) = TBool"
| "py_type (PInt i) = TInt"
| "py_type (PStr s) = TStr"
| "py_type (PRef a) = TDict"

text \<open>\<^verbatim>\<open>isinstance(v, t)\<close>: the type of \<open>v\<close> is \<open>t\<close> or a subclass of it; among the
  types above the only proper subclass is \<^verbatim>\<open>bool\<close> of \<^verbatim>\<open>int\<close>.\<close>

definition isinstance :: "pyval \<Rightarrow> pytype \<Rightarrow> bool" where
  "isinstance v t = (py_type v = t \<or> (py_type v = TBool \<and> t = TInt))"

text \<open>Truth value of an object, as \<^verbatim>\<open>not x\<close> and \<^verbatim>\<open>x or y\<close> test it; a dict is
  true when it is not empty.\<close>

fun truthy :: "(nat \<Rightarrow> pydict) \<Rightarrow> pyval \<Rightarrow> bool" where
  "truthy h PNone = False"
| "truthy h (PBool b) = b"
| "truthy h (PInt i) = (i \<noteq> 0)"
| "truthy h (PStr s) = (s \<noteq> [])"
| "truthy h (PRef a) = (h a \<noteq> [])"

text \<open>
  The exceptions the module raises. Every \<^verbatim>\<open>raise ValueError(msg)\<close> is one constructor,
  carrying what the message is formatted from:
  \<^item> \<open>ParameterAlreadyDefined name cls\<close>: \<^verbatim>\<open>'Parameter {} already defined in class {}'\<close>;
  \<^item> \<open>ParameterNotRegistered name cls\<close>: \<^verbatim>\<open>'Parameter {} is not registered for class {}'\<close>;
  \<^item> \<open>NotSameType value t\<close>: \<^verbatim>\<open>'The value {} is not the same type as registered {}'\<close>;
  \<^item> \<open>VersionNotInteger\<close>: \<^verbatim>\<open>'Version can only be integer'\<close>.
  \<open>AttributeError\<close> and \<open>TypeError\<close> are Python's own, \<open>DatabaseError\<close> stands for what the ORM raises when
  a flush fails.
\<close>

datatype error =
    ParameterAlreadyDefined string string
  | ParameterNotRegistered string string
  | NotSameType pyval pytype
  | VersionNotInteger
  | AttributeError string
  | TypeError
  | DatabaseError

fun is_ValueError :: "error \<Rightarrow> bool" where
  "is_ValueError (ParameterAlreadyDefined n c) = True"
| "is_ValueError (ParameterNotRegistered n c) = True"
| "is_ValueError (NotSameType v t) = True"
| "is_ValueError VersionNotInteger = True"
| "is_ValueError (AttributeError a) = False"
| "is_ValueError TypeError = False"
| "is_ValueError DatabaseError = False"

definition startswith :: "string \<Rightarrow> string \<Rightarrow> bool" where
  "startswith s p = (take (length p) s = p)"

section \<open>Classes and the parameter registry\<close>

text \<open>
  A parameter descriptor is the dict \<^verbatim>\<open>register_parameter.__call__\<close> appends:
  keys \<^verbatim>\<open>section\<close>, \<^verbatim>\<open>name\<close>, \<^verbatim>\<open>default\<close>, \<^verbatim>\<open>type\<close>, \<^verbatim>\<open>description\<close>, \<^verbatim>\<open>cls\<close>.
\<close>

record descriptor =
  p_section :: string
  p_name :: string
  p_default :: pyval
  p_type :: pytype
  p_description :: string
  p_cls :: string

text \<open>
  A class is an object with an identity, a \<^verbatim>\<open>__name__\<close> and the rest of its method
  resolution order (its ancestors, nearest first). The registries are class attributes
  named \<^verbatim>\<open>__parameter_defaults__\<close> followed by the class name; \<open>class_dicts\<close> gives,
  for every class, the attributes of that kind in the class's own \<^verbatim>\<open>__dict__\<close>. Each registry list is
  owned by one class attribute: \<^verbatim>\<open>setattr\<close> always stores a fresh list.
\<close>

record klass =
  k_id :: nat
  k_name :: string
  k_bases :: "nat list"

type_synonym class_dicts = "nat \<Rightarrow> (string \<times> descriptor list) list"

definition mro :: "klass \<Rightarrow> nat list" where
  "mro cls = k_id cls # k_bases cls"

fun lookup_mro :: "class_dicts \<Rightarrow> nat list \<Rightarrow> string \<Rightarrow> (nat \<times> descriptor list) option" where
  "lookup_mro cd [] f = None"
| "lookup_mro cd (c # cs) f =
     (case map_of (cd c) f of Some v \<Rightarrow> Some (c, v) | None \<Rightarrow> lookup_mro cd cs f)"

definition hasattr_cls :: "class_dicts \<Rightarrow> klass \<Rightarrow> string \<Rightarrow> bool" where
  "hasattr_cls cd cls f = (lookup_mro cd (mro cls) f \<noteq> None)"

text \<open>\<^verbatim>\<open>getattr(cls, f)\<close> for a name \<open>f\<close> taken from \<^verbatim>\<open>dir(cls)\<close>, which always exists.\<close>

definition getattr_cls :: "class_dicts \<Rightarrow> klass \<Rightarrow> string \<Rightarrow> descriptor list" where
  "getattr_cls cd cls f = (case lookup_mro cd (mro cls) f of Some (c, v) \<Rightarrow> v | None \<Rightarrow> [])"

definition setattr_cls :: "class_dicts \<Rightarrow> klass \<Rightarrow> string \<Rightarrow> descriptor list \<Rightarrow> class_dicts" where
  "setattr_cls cd cls f v = cd(k_id cls := AList.update f v (cd (k_id cls)))"

text \<open>\<^verbatim>\<open>dir(cls)\<close>: the attribute names of the class and its ancestors, each once,
  sorted.\<close>

definition dir_cls :: "class_dicts \<Rightarrow> klass \<Rightarrow> string list" where
  "dir_cls cd cls = sort (remdups (concat (map (\<lambda>c. map fst (cd c)) (mro cls))))"

definition PARAMETER_REGISTRY :: string where
  "PARAMETER_REGISTRY = ''__parameter_defaults__''"

definition parent_fields :: "class_dicts \<Rightarrow> klass \<Rightarrow> string list" where
  "parent_fields cd cls = filter (\<lambda>field. startswith field PARAMETER_REGISTRY) (dir_cls cd cls)"

subsection \<open>\<^verbatim>\<open>register_parameter\<close>\<close>

record register_parameter =
  rp_section :: string
  rp_name :: string
  rp_default :: pyval
  rp_parameter_type :: pytype
  rp_description :: string
  rp_target_class :: "klass option"

text \<open>\<^verbatim>\<open>register_parameter.__init__\<close>: a missing \<^verbatim>\<open>parameter_type\<close> is the type of the
  default.\<close>

definition register_parameter_init ::
  "string \<Rightarrow> string \<Rightarrow> pyval \<Rightarrow> pytype option \<Rightarrow> string \<Rightarrow> klass option \<Rightarrow> register_parameter" where
  "register_parameter_init section name default_v parameter_type description target_class =
     \<lparr> rp_section = section, rp_name = name, rp_default = default_v,
       rp_parameter_type = (case parameter_type of None \<Rightarrow> py_type default_v | Some t \<Rightarrow> t),
       rp_description = description, rp_target_class = target_class \<rparr>"

text \<open>The loop of \<^verbatim>\<open>__call__\<close> over \<^verbatim>\<open>parent_fields\<close>: every registry contributes the
  descriptors whose name no earlier registry had, and then adds its names to
  \<^verbatim>\<open>parent_param_names\<close>.\<close>

fun parent_params_loop ::
  "class_dicts \<Rightarrow> klass \<Rightarrow> string list \<Rightarrow> string set \<Rightarrow> descriptor list list \<Rightarrow> descriptor list list" where
  "parent_params_loop cd cls [] parent_param_names parent_params = parent_params"
| "parent_params_loop cd cls (f # fs) parent_param_names parent_params =
     (let p_params = getattr_cls cd cls f
      in parent_params_loop cd cls fs
           (parent_param_names \<union> set (map p_name p_params))
           (parent_params @ [filter (\<lambda>p. p_name p \<notin> parent_param_names) p_params]))"

text \<open>
  \<^verbatim>\<open>register_parameter.__call__(cls)\<close>. The owning class \<^verbatim>\<open>tcls\<close> is the
  \<^verbatim>\<open>target_class\<close> when one was given, else the decorated class. The result is the
  exception or the normal return, with the class attributes as they are at that moment:
  the registry built for a class without one stays when the duplicate check raises. \<^verbatim>\<open>params.append\<close> changes the list
  that \<^verbatim>\<open>getattr(tcls, field)\<close> found, in the class of the resolution order that owns it.
\<close>

definition tcls_of :: "register_parameter \<Rightarrow> klass \<Rightarrow> klass" where
  "tcls_of self cls = (case rp_target_class self of Some t \<Rightarrow> t | None \<Rightarrow> cls)"

definition register_parameter_call ::
  "register_parameter \<Rightarrow> klass \<Rightarrow> class_dicts \<Rightarrow> (error + unit) \<times> class_dicts" where
  "register_parameter_call self cls cd =
     (let tcls = tcls_of self cls;
          section = k_name cls @ '':'' @ rp_section self;
          field = PARAMETER_REGISTRY @ k_name tcls;
          cd1 = (if \<not> hasattr_cls cd tcls field
                 then setattr_cls cd tcls field
                        (concat (parent_params_loop cd cls (parent_fields cd cls) {} []))
                 else cd)
      in case lookup_mro cd1 (mro tcls) field of
           None \<Rightarrow> (Inl (AttributeError field), cd1)
         | Some (owner, params) \<Rightarrow>
             (case filter (\<lambda>p. p_name p = rp_name self) params of
                found0 # _ \<Rightarrow> (Inl (ParameterAlreadyDefined (rp_name self) (p_cls found0)), cd1)
              | [] \<Rightarrow>
                 (Inr (),
                  cd1(owner := AList.update field
                     (params @ [\<lparr> p_section = section, p_name = rp_name self,
                                  p_default = rp_default self, p_type = rp_parameter_type self,
                                  p_description = rp_description self, p_cls = k_name tcls \<rparr>])
                     (cd1 owner)))))"

subsection \<open>The class methods of \<^verbatim>\<open>ParametrizedMixin\<close>\<close>

text \<open>
  \<^verbatim>\<open>registered_parameters\<close>: \<^verbatim>\<open>parent_param_names\<close> is the empty set and stays empty, so
  the filter of the comprehension keeps every descriptor of every registry.
\<close>

definition registered_parameters :: "klass \<Rightarrow> class_dicts \<Rightarrow> descriptor list \<times> class_dicts" where
  "registered_parameters cls cd =
     (let field = PARAMETER_REGISTRY @ k_name cls;
          cd1 = (if \<not> hasattr_cls cd cls field
                 then (let parent_param_names = {};
                           parent_params = concat (map (\<lambda>f. filter (\<lambda>p. p_name p \<notin> parent_param_names)
                                                              (getattr_cls cd cls f))
                                                       (parent_fields cd cls))
                       in setattr_cls cd cls field parent_params)
                 else cd)
      in (getattr_cls cd1 cls field, cd1))"

definition parameter_default :: "klass \<Rightarrow> string \<Rightarrow> class_dicts \<Rightarrow> pyval \<times> class_dicts" where
  "parameter_default cls name cd =
     (let (ps, cd1) = registered_parameters cls cd
      in (case find (\<lambda>p. p_name p = name) ps of Some p \<Rightarrow> p_default p | None \<Rightarrow> PNone, cd1))"

text \<open>\<^verbatim>\<open>parameter_type\<close> returns a type, or \<^verbatim>\<open>None\<close> when no descriptor has the name.\<close>

definition parameter_type :: "klass \<Rightarrow> string \<Rightarrow> class_dicts \<Rightarrow> pytype option \<times> class_dicts" where
  "parameter_type cls name cd =
     (let (ps, cd1) = registered_parameters cls cd
      in (case find (\<lambda>p. p_name p = name) ps of Some p \<Rightarrow> Some (p_type p) | None \<Rightarrow> None, cd1))"

section \<open>Instances of \<^verbatim>\<open>LazyMixin\<close> and \<^verbatim>\<open>ParametrizedMixin\<close>\<close>

text \<open>
  The state an instance method works on: the class registries, the store of dict objects
  with the next free address, and the instance's own \<^verbatim>\<open>__dict__\<close>. The attributes of
  the instance's class are not part of \<open>attrs\<close>; the module defines no class attribute
  whose name starts with \<^verbatim>\<open>__lazy_\<close>, so \<^verbatim>\<open>getattr\<close>, \<^verbatim>\<open>hasattr\<close>, \<^verbatim>\<open>delattr\<close> and
  \<^verbatim>\<open>dir\<close> on such names see the instance's \<^verbatim>\<open>__dict__\<close> only. A mapped column that was
  never assigned reads as \<^verbatim>\<open>None\<close>.
\<close>

record obj_state =
  classes :: class_dicts
  heap :: "nat \<Rightarrow> pydict"
  next_addr :: nat
  attrs :: pydict

definition hasattr :: "obj_state \<Rightarrow> string \<Rightarrow> bool" where
  "hasattr self name = (name \<in> fst ` set (attrs self))"

definition getattr_column :: "pydict \<Rightarrow> string \<Rightarrow> pyval" where
  "getattr_column d name = (case map_of d name of Some v \<Rightarrow> v | None \<Rightarrow> PNone)"

definition dir_self :: "obj_state \<Rightarrow> string list" where
  "dir_self self = sort (remdups (map fst (attrs self)))"

subsection \<open>\<^verbatim>\<open>lazy_property\<close> and \<^verbatim>\<open>LazyMixin.invalidate\<close>\<close>

text \<open>
  \<^verbatim>\<open>lazy_property(f)\<close>, with \<open>f_name\<close> for \<^verbatim>\<open>f.__name__\<close>. The wrapped function takes the
  instance and may do anything to the state, or raise. Reading the property returns the
  attribute \<^verbatim>\<open>'__lazy_' + f.__name__\<close> when there is one; the \<^verbatim>\<open>AttributeError\<close> of the
  missing attribute is the branch that calls \<open>f\<close> and stores what it returns.
\<close>

definition lazy_property ::
  "string \<Rightarrow> (obj_state \<Rightarrow> (error + pyval) \<times> obj_state) \<Rightarrow> obj_state \<Rightarrow> (error + pyval) \<times> obj_state" where
  "lazy_property f_name f self =
     (let internal_property = ''__lazy_'' @ f_name
      in case map_of (attrs self) internal_property of
           Some v \<Rightarrow> (Inr v, self)
         | None \<Rightarrow>
             (case f self of
                (Inl e, self1) \<Rightarrow> (Inl e, self1)
              | (Inr v, self1) \<Rightarrow>
                  (Inr v, self1\<lparr>attrs := AList.update internal_property v (attrs self1)\<rparr>)))"

text \<open>The loop \<^verbatim>\<open>for p in lazy_properties: delattr(self, p)\<close>; \<^verbatim>\<open>delattr\<close> of a name the
  instance does not have raises, and what was deleted before stays deleted.\<close>

fun delattr_all :: "string list \<Rightarrow> pydict \<Rightarrow> (error + unit) \<times> pydict" where
  "delattr_all [] d = (Inr (), d)"
| "delattr_all (p # ps) d =
     (if p \<in> fst ` set d then delattr_all ps (AList.delete p d)
      else (Inl (AttributeError p), d))"

definition invalidate :: "string option \<Rightarrow> obj_state \<Rightarrow> (error + unit) \<times> obj_state" where
  "invalidate property_name self =
     (case property_name of
        None \<Rightarrow>
          (let lazy_properties = filter (\<lambda>name. startswith name ''__lazy_'') (dir_self self);
               (r, d) = delattr_all lazy_properties (attrs self)
           in (r, self\<lparr>attrs := d\<rparr>))
      | Some name \<Rightarrow>
          (let lazy_property_name = ''__lazy_'' @ name
           in if hasattr self lazy_property_name
              then (Inr (), self\<lparr>attrs := AList.delete lazy_property_name (attrs self)\<rparr>)
              else (Inr (), self)))"

subsection \<open>\<^verbatim>\<open>ParametrizedMixin\<close>\<close>

text \<open>
  The function under \<^verbatim>\<open>@lazy_property def parameters\<close>: a new empty dict when
  \<^verbatim>\<open>self.params\<close> is \<^verbatim>\<open>None\<close> or empty, else the very object \<^verbatim>\<open>self.params\<close> holds.
  No value of the model equals \<^verbatim>\<open>JSON.NULL\<close>, and returning an attribute cannot raise,
  so the \<^verbatim>\<open>except\<close> branch has no counterpart.
\<close>

definition parameters_body :: "obj_state \<Rightarrow> (error + pyval) \<times> obj_state" where
  "parameters_body self =
     (let params = getattr_column (attrs self) ''params''
      in if \<not> truthy (heap self) params
         then (Inr (PRef (next_addr self)),
               self\<lparr>heap := (heap self)(next_addr self := []), next_addr := Suc (next_addr self)\<rparr>)
         else (Inr params, self))"

definition parameters :: "obj_state \<Rightarrow> (error + pyval) \<times> obj_state" where
  "parameters = lazy_property ''parameters'' parameters_body"

text \<open>
  \<^verbatim>\<open>get(name, default=None)\<close>: \<^verbatim>\<open>self.parameters.get(name, default or
  self.parameter_default(name))\<close>. The property is read first; \<^verbatim>\<open>parameter_default\<close> is
  called only when \<^verbatim>\<open>default\<close> is false.
\<close>

definition ParametrizedMixin_get ::
  "klass \<Rightarrow> string \<Rightarrow> pyval \<Rightarrow> obj_state \<Rightarrow> (error + pyval) \<times> obj_state" where
  "ParametrizedMixin_get cls name default_v self =
     (case parameters self of
        (Inl e, s1) \<Rightarrow> (Inl e, s1)
      | (Inr (PRef a), s1) \<Rightarrow>
          (let (d, s2) =
                 (if truthy (heap s1) default_v then (default_v, s1)
                  else (let (v, cd) = parameter_default cls name (classes s1)
                        in (v, s1\<lparr>classes := cd\<rparr>)))
           in (Inr (case map_of (heap s2 a) name of Some v \<Rightarrow> v | None \<Rightarrow> d), s2))
      | (Inr _, s1) \<Rightarrow> (Inl (AttributeError ''get''), s1))"

text \<open>
  \<^verbatim>\<open>set(name, value)\<close>. A registered type is a type object, never an instance of
  \<^verbatim>\<open>type(None)\<close>, so the second conjunct of the type test is always true.
  \<^verbatim>\<open>self.parameters[name] = value\<close> writes into the dict object the property returns,
  \<^verbatim>\<open>self.invalidate(name)\<close> removes the attribute \<^verbatim>\<open>'__lazy_' + name\<close>, and
  \<^verbatim>\<open>self.params = self.parameters\<close> reads the property again and stores the reference.
\<close>

definition isinstance_NoneType :: "pytype \<Rightarrow> bool" where
  "isinstance_NoneType registered_type = False"

definition ParametrizedMixin_set ::
  "klass \<Rightarrow> string \<Rightarrow> pyval \<Rightarrow> obj_state \<Rightarrow> (error + unit) \<times> obj_state" where
  "ParametrizedMixin_set cls name v self =
     (let (registered_type, cd) = parameter_type cls name (classes self);
          s0 = self\<lparr>classes := cd\<rparr>
      in case registered_type of
           None \<Rightarrow> (Inl (ParameterNotRegistered name (k_name cls)), s0)
         | Some t \<Rightarrow>
             if \<not> isinstance v t \<and> \<not> isinstance_NoneType t
             then (Inl (NotSameType v t), s0)
             else
               (case parameters s0 of
                  (Inl e, s1) \<Rightarrow> (Inl e, s1)
                | (Inr (PRef a), s1) \<Rightarrow>
                    (let s2 = s1\<lparr>heap := (heap s1)(a := AList.update name v (heap s1 a))\<rparr>
                     in case invalidate (Some name) s2 of
                          (Inl e, s3) \<Rightarrow> (Inl e, s3)
                        | (Inr u, s3) \<Rightarrow>
                            (case parameters s3 of
                               (Inl e, s4) \<Rightarrow> (Inl e, s4)
                             | (Inr d, s4) \<Rightarrow>
                                 (Inr (), s4\<lparr>attrs := AList.update ''params'' d (attrs s4)\<rparr>)))
                | (Inr _, s1) \<Rightarrow> (Inl TypeError, s1)))"

section \<open>\<^verbatim>\<open>Versions\<close> and \<^verbatim>\<open>VersionedMixin\<close>\<close>

text \<open>
  The table \<^verbatim>\<open>versions\<close> (columns \<^verbatim>\<open>id\<close>, \<^verbatim>\<open>class_name\<close>, \<^verbatim>\<open>record_name\<close>,
  \<^verbatim>\<open>max_version\<close>) and the table of one versioned class \<^verbatim>\<open>tc\<close>, of which the three
  columns of the mixin are kept (\<^verbatim>\<open>id\<close>, \<^verbatim>\<open>name\<close>, \<^verbatim>\<open>version\<close>, all \<^verbatim>\<open>NOT NULL\<close>).
  Python integers are unbounded, the columns are not: an \<^verbatim>\<open>Integer\<close> column (\<^verbatim>\<open>int(11)\<close> in
  the table definition of the docstring) holds a signed 32-bit value, and the string
  columns are \<^verbatim>\<open>String(256)\<close> and \<^verbatim>\<open>String(250)\<close>. The database of the docstring is MySQL
  with InnoDB, whose strict mode makes a statement fail that would store a value out of a
  column's range.
\<close>

definition sql_integer :: "int \<Rightarrow> bool" where
  "sql_integer i = (- 2147483648 \<le> i \<and> i \<le> 2147483647)"

record versions_row =
  versions_id :: int
  class_name :: string
  record_name :: string
  max_version :: int

record entity_row =
  row_id :: int
  row_name :: string
  row_version :: int

text \<open>
  An instance of a versioned class: the \<^verbatim>\<open>__name__\<close> of its class, the names of the
  attributes its class has or inherits beyond those \<^verbatim>\<open>VersionedMixin\<close> defines, the
  primary key of the row the session holds it for (\<open>None\<close> for an instance that is not
  in the session), and its own \<^verbatim>\<open>__dict__\<close>. Assigning an attribute stores the value
  in the \<^verbatim>\<open>__dict__\<close>.
\<close>

record versioned =
  tc_name :: string
  tc_attrs :: "string list"
  identity :: "int option"
  v_attrs :: pydict

record orm_state =
  versions_table :: "versions_row list"
  entity_table :: "entity_row list"
  entity :: versioned



definition setattr_versioned :: "versioned \<Rightarrow> string \<Rightarrow> pyval \<Rightarrow> versioned" where
  "setattr_versioned self key v = self\<lparr>v_attrs := AList.update key v (v_attrs self)\<rparr>"

subsection \<open>The session\<close>

text \<open>An integer column takes a Python \<^verbatim>\<open>int\<close>, and a \<^verbatim>\<open>bool\<close> as 0 or 1.\<close>

fun int_of_pyval :: "pyval \<Rightarrow> int option" where
  "int_of_pyval (PInt i) = Some i"
| "int_of_pyval (PBool b) = Some (if b then 1 else 0)"
| "int_of_pyval v = None"

text \<open>
  The flush of the versioned instance at a commit. An instance that is not in the session
  writes nothing. A persistent one updates the row of its primary key with the values it
  holds; a value that its column cannot take (by type, range or length), or a primary key
  that another row has, makes the flush fail.
\<close>

definition flush_entity :: "versioned \<Rightarrow> entity_row list \<Rightarrow> error + entity_row list" where
  "flush_entity self tbl =
     (case identity self of
        None \<Rightarrow> Inr tbl
      | Some pk \<Rightarrow>
          (case (int_of_pyval (getattr_column (v_attrs self) ''id''),
                 getattr_column (v_attrs self) ''name'',
                 int_of_pyval (getattr_column (v_attrs self) ''version'')) of
             (Some i, PStr n, Some v) \<Rightarrow>
               if \<not> sql_integer i \<or> \<not> sql_integer v \<or> 250 < length n then Inl DatabaseError
               else if i \<noteq> pk \<and> i \<in> row_id ` set tbl then Inl DatabaseError
               else Inr (map (\<lambda>r. if row_id r = pk
                                   then \<lparr>row_id = i, row_name = n, row_version = v\<rparr> else r) tbl)
           | _ \<Rightarrow> Inl DatabaseError))"

text \<open>
  What a \<^verbatim>\<open>Versions\<close> object brings to \<^verbatim>\<open>db.session.commit()\<close>:
  \<^item> \<open>UpdateMaxVersionExpr vid\<close>: the attribute \<^verbatim>\<open>max_version\<close> of the persistent object
    with primary key \<open>vid\<close> was assigned the SQL expression \<^verbatim>\<open>Versions.max_version + 1\<close>,
    which the flush emits as
    \<^verbatim>\<open>UPDATE versions SET max_version = versions.max_version + 1 WHERE id = vid\<close>.
    The addition is the database's: \<^verbatim>\<open>id\<close> is the primary key, so the row found is the
    row the statement changes, and a sum above the column's maximum makes it fail;
  \<^item> \<open>InsertVersions vid c n m\<close>: a new object, inserted under the next free id \<open>vid\<close>, when
    its values fit their columns.
  A commit whose flush fails changes nothing in the tables.
\<close>

datatype pending = UpdateMaxVersionExpr int | InsertVersions int string pyval int

definition session_commit :: "pending \<Rightarrow> orm_state \<Rightarrow> (error + unit) \<times> orm_state" where
  "session_commit p st =
     (case flush_entity (entity st) (entity_table st) of
        Inl e \<Rightarrow> (Inl e, st)
      | Inr etbl \<Rightarrow>
          (case p of
             UpdateMaxVersionExpr vid \<Rightarrow>
               (case find (\<lambda>r. versions_id r = vid) (versions_table st) of
                  None \<Rightarrow> (Inl DatabaseError, st)
                | Some row \<Rightarrow>
                    if sql_integer (max_version row + 1)
                    then (Inr (),
                          st\<lparr>entity_table := etbl,
                             versions_table :=
                               map (\<lambda>r. if versions_id r = vid
                                         then r\<lparr>max_version := max_version r + 1\<rparr> else r)
                                   (versions_table st)\<rparr>)
                    else (Inl DatabaseError, st))
           | InsertVersions vid c n m \<Rightarrow>
               (case n of
                  PStr record \<Rightarrow>
                    if sql_integer vid \<and> sql_integer m \<and> length c \<le> 256 \<and> length record \<le> 256
                    then (Inr (),
                          st\<lparr>entity_table := etbl,
                             versions_table := versions_table st @
                               [\<lparr>versions_id = vid, class_name = c, record_name = record,
                                 max_version = m\<rparr>]\<rparr>)
                    else (Inl DatabaseError, st)
                | _ \<Rightarrow> (Inl DatabaseError, st))))"


subsection \<open>\<^verbatim>\<open>Versions.current_max_version\<close>\<close>

text \<open>
  The method of the \<^verbatim>\<open>Versions\<close> object with primary key \<open>vid\<close>: assign the SQL
  expression, commit, and read the attribute, which the ORM loads from the row again
  after an expression was flushed.
\<close>

definition current_max_version :: "int \<Rightarrow> orm_state \<Rightarrow> (error + int) \<times> orm_state" where
  "current_max_version vid st =
     (case session_commit (UpdateMaxVersionExpr vid) st of
        (Inl e, st1) \<Rightarrow> (Inl e, st1)
      | (Inr u, st1) \<Rightarrow>
          (case find (\<lambda>r. versions_id r = vid) (versions_table st1) of
             Some r \<Rightarrow> (Inr (max_version r), st1)
           | None \<Rightarrow> (Inl DatabaseError, st1)))"

subsection \<open>\<^verbatim>\<open>VersionedMixin\<close>\<close>

text \<open>\<^verbatim>\<open>__init__(self, name='', version=None)\<close> of an instance of the class named \<open>tc\<close>.\<close>

definition VersionedMixin_init :: "string \<Rightarrow> string list \<Rightarrow> pyval \<Rightarrow> pyval \<Rightarrow> error + versioned" where
  "VersionedMixin_init tc extra name version =
     (let self = \<lparr>tc_name = tc, tc_attrs = extra, identity = None, v_attrs = [(''name'', name)]\<rparr>
      in if version \<noteq> PNone
         then (if isinstance version TInt
               then Inr (setattr_versioned self ''version'' version)
               else Inl VersionNotInteger)
         else Inr self)"

text \<open>
  The row an \<^verbatim>\<open>INSERT\<close> of a new instance writes, from the three \<^verbatim>\<open>Column\<close>
  declarations: \<^verbatim>\<open>id\<close> is the given next id when the instance has none, \<^verbatim>\<open>name\<close> must
  be a string, and \<^verbatim>\<open>version\<close> takes the column's \<^verbatim>\<open>default=1\<close> when the instance has
  no value for it.
\<close>

definition version_column_default :: int where
  "version_column_default = 1"

definition inserted_row :: "int \<Rightarrow> versioned \<Rightarrow> error + entity_row" where
  "inserted_row next_id self =
     (case getattr_column (v_attrs self) ''name'' of
        PStr n \<Rightarrow>
          (let i = (case getattr_column (v_attrs self) ''id'' of
                      PNone \<Rightarrow> Some next_id | v \<Rightarrow> int_of_pyval v);
               ver = (case getattr_column (v_attrs self) ''version'' of
                        PNone \<Rightarrow> Some version_column_default | v \<Rightarrow> int_of_pyval v)
           in case (i, ver) of
                (Some i', Some ver') \<Rightarrow> Inr \<lparr>row_id = i', row_name = n, row_version = ver'\<rparr>
              | _ \<Rightarrow> Inl DatabaseError)
      | _ \<Rightarrow> Inl DatabaseError)"







text \<open>The document the column \<^verbatim>\<open>params\<close> holds, which is what a flush persists.\<close>

definition params_document :: "obj_state \<Rightarrow> pydict option" where
  "params_document self =
     (case getattr_column (attrs self) ''params'' of
        PRef a \<Rightarrow> Some (heap self a)
      | _ \<Rightarrow> None)"

text \<open>The registry of a class as \<^verbatim>\<open>getattr(tcls, field)\<close> finds it, if there is one.\<close>

definition registry_of :: "class_dicts \<Rightarrow> klass \<Rightarrow> descriptor list option" where
  "registry_of cd tcls =
     map_option snd (lookup_mro cd (mro tcls) (PARAMETER_REGISTRY @ k_name tcls))"

section \<open>Properties\<close>

subsection \<open>The version counter\<close>

lemma find_after_increment:
  "find (\<lambda>r. versions_id r = vid) tbl = Some row \<Longrightarrow>
   find (\<lambda>r. versions_id r = vid)
     (map (\<lambda>r. if versions_id r = vid then r\<lparr>max_version := max_version r + 1\<rparr> else r) tbl)
   = Some (row\<lparr>max_version := max_version row + 1\<rparr>)"
  by (induction tbl) (auto split: if_splits)

lemma current_max_version_next:
  assumes row: "find (\<lambda>r. versions_id r = vid) (versions_table st) = Some row"
    and range: "sql_integer (max_version row + 1)"
    and flush: "flush_entity (entity st) (entity_table st) = Inr etbl"
  shows "current_max_version vid st =
           (Inr (max_version row + 1),
            st\<lparr>entity_table := etbl,
               versions_table :=
                 map (\<lambda>r. if versions_id r = vid then r\<lparr>max_version := max_version r + 1\<rparr> else r)
                     (versions_table st)\<rparr>)"
proof -
  let ?tbl = "map (\<lambda>r. if versions_id r = vid then r\<lparr>max_version := max_version r + 1\<rparr> else r)
                  (versions_table st)"
  have commit: "session_commit (UpdateMaxVersionExpr vid) st
                  = (Inr (), st\<lparr>entity_table := etbl, versions_table := ?tbl\<rparr>)"
    using row range flush by (simp add: session_commit_def)
  have reload: "find (\<lambda>r. versions_id r = vid) ?tbl = Some (row\<lparr>max_version := max_version row + 1\<rparr>)"
    using row by (rule find_after_increment)
  show ?thesis
    by (simp add: current_max_version_def commit reload)
qed

text \<open>
  Claim C2 says that \<^verbatim>\<open>current_max_version()\<close> increments and returns for every
  \<^verbatim>\<open>Versions\<close> row. A row can hold the largest value of its \<^verbatim>\<open>Integer\<close> column,
  2147483647; there the \<^verbatim>\<open>UPDATE\<close> computes a value the column cannot store, the commit
  fails, nothing is returned and the row stays as it was.
\<close>

theorem current_max_version_at_column_maximum_counterexample:
  "current_max_version 1
     \<lparr>versions_table = [\<lparr>versions_id = 1, class_name = ''Doc'', record_name = ''bar'',
                          max_version = 2147483647\<rparr>],
      entity_table = [], entity = \<lparr>tc_name = ''Doc'', tc_attrs = [], identity = None, v_attrs = []\<rparr>\<rparr>
   = (Inl DatabaseError,
      \<lparr>versions_table = [\<lparr>versions_id = 1, class_name = ''Doc'', record_name = ''bar'',
                           max_version = 2147483647\<rparr>],
       entity_table = [], entity = \<lparr>tc_name = ''Doc'', tc_attrs = [], identity = None, v_attrs = []\<rparr>\<rparr>)"
  by (simp add: current_max_version_def session_commit_def flush_entity_def sql_integer_def)

text \<open>
  Claim C2, amended. For a \<^verbatim>\<open>Versions\<close> row whose \<^verbatim>\<open>max_version\<close> is \<open>k\<close>, with
  \<open>k + 1\<close> a value of the column (\<open>k\<close> below 2147483647), in a session whose other
  pending change (that of the versioned instance, if any) can be flushed,
  \<^verbatim>\<open>current_max_version()\<close> returns \<open>k + 1\<close> and the row is stored with \<open>k + 1\<close>;
  the other rows of \<^verbatim>\<open>versions\<close> are as before. With \<open>k = 3\<close> it returns 4 and stores 4.
\<close>

theorem current_max_version_increments:
  assumes row: "find (\<lambda>r. versions_id r = vid) (versions_table st) = Some row"
    and k: "max_version row = k"
    and range: "sql_integer (k + 1)"
    and flush: "flush_entity (entity st) (entity_table st) = Inr etbl"
  shows "current_max_version vid st =
           (Inr (k + 1),
            st\<lparr>entity_table := etbl,
               versions_table :=
                 map (\<lambda>r. if versions_id r = vid then r\<lparr>max_version := max_version r + 1\<rparr> else r)
                     (versions_table st)\<rparr>)
         \<and> find (\<lambda>r. versions_id r = vid) (versions_table (snd (current_max_version vid st)))
           = Some (row\<lparr>max_version := k + 1\<rparr>)"
  using current_max_version_next [OF row _ flush] find_after_increment [OF row] k range
  by simp

theorem current_max_version_increments_witness:
  "sql_integer (3 + 1)
   \<and> current_max_version 1
     \<lparr>versions_table = [\<lparr>versions_id = 1, class_name = ''Doc'', record_name = ''bar'', max_version = 3\<rparr>],
      entity_table = [], entity = \<lparr>tc_name = ''Doc'', tc_attrs = [], identity = None, v_attrs = []\<rparr>\<rparr>
   = (Inr 4,
      \<lparr>versions_table = [\<lparr>versions_id = 1, class_name = ''Doc'', record_name = ''bar'', max_version = 4\<rparr>],
       entity_table = [], entity = \<lparr>tc_name = ''Doc'', tc_attrs = [], identity = None, v_attrs = []\<rparr>\<rparr>)"
  using current_max_version_increments
    [of 1 "\<lparr>versions_table = [\<lparr>versions_id = 1, class_name = ''Doc'', record_name = ''bar'', max_version = 3\<rparr>],
      entity_table = [], entity = \<lparr>tc_name = ''Doc'', tc_attrs = [], identity = None, v_attrs = []\<rparr>\<rparr>"
        "\<lparr>versions_id = 1, class_name = ''Doc'', record_name = ''bar'', max_version = 3\<rparr>" 3 "[]"]
  by (simp add: flush_entity_def sql_integer_def)

subsection \<open>Construction of a versioned entity\<close>

text \<open>
  Claim C9 says that construction with an empty name fails. \<^verbatim>\<open>__init__\<close> assigns the
  name without looking at it: with the empty string (the default of the parameter) it
  returns the instance.
\<close>

theorem VersionedMixin_init_empty_name_counterexample:
  "VersionedMixin_init ''Doc'' [] (PStr '''') PNone
     = Inr \<lparr>tc_name = ''Doc'', tc_attrs = [], identity = None, v_attrs = [(''name'', PStr '''')]\<rparr>"
  by (simp add: VersionedMixin_init_def)


text \<open>
  Claim C9, amended. Construction accepts every name, the empty one included, and the
  instance holds the name it was given; it succeeds when the version is \<^verbatim>\<open>None\<close> or an
  instance of \<^verbatim>\<open>int\<close>, and a version that is neither fails with the \<^verbatim>\<open>ValueError\<close>
  \<^verbatim>\<open>'Version can only be integer'\<close>.
\<close>

theorem VersionedMixin_init_accepts_name_checks_version:
  "(version = PNone \<or> isinstance version TInt \<longrightarrow>
      (\<exists>self. VersionedMixin_init tc extra name version = Inr self
              \<and> getattr_column (v_attrs self) ''name'' = name))
   \<and> (version \<noteq> PNone \<and> \<not> isinstance version TInt \<longrightarrow>
        VersionedMixin_init tc extra name version = Inl VersionNotInteger
        \<and> is_ValueError VersionNotInteger)"
  by (auto simp: VersionedMixin_init_def Let_def setattr_versioned_def getattr_column_def)

theorem VersionedMixin_init_accepts_name_checks_version_witness:
  "(\<exists>self. VersionedMixin_init ''Doc'' [] (PStr '''') (PInt 3) = Inr self
            \<and> getattr_column (v_attrs self) ''name'' = PStr '''')
   \<and> VersionedMixin_init ''Doc'' [] (PStr ''a'') (PStr ''3'') = Inl VersionNotInteger"
  using VersionedMixin_init_accepts_name_checks_version [of "PInt 3" "''Doc''" "[]" "PStr ''''"]
        VersionedMixin_init_accepts_name_checks_version [of "PStr ''3''" "''Doc''" "[]" "PStr ''a''"]
  by (simp add: isinstance_def)


text \<open>
  Claim C10. Construction with \<^verbatim>\<open>version=None\<close> does not raise, whatever the name, and
  leaves the attribute \<^verbatim>\<open>version\<close> unassigned, so that the row inserted for the instance
  gets the column default 1.
\<close>

theorem VersionedMixin_init_default_version:
  "\<exists>self. VersionedMixin_init tc extra name PNone = Inr self
      \<and> ''version'' \<notin> fst ` set (v_attrs self)
      \<and> (\<forall>n next_id. name = PStr n \<longrightarrow>
            inserted_row next_id self = Inr \<lparr>row_id = next_id, row_name = n, row_version = 1\<rparr>)"
  by (simp add: VersionedMixin_init_def inserted_row_def getattr_column_def version_column_default_def)

theorem VersionedMixin_init_default_version_witness:
  "\<exists>self. VersionedMixin_init ''Doc'' [] (PStr ''bar'') PNone = Inr self
      \<and> ''version'' \<notin> fst ` set (v_attrs self)
      \<and> inserted_row 8 self = Inr \<lparr>row_id = 8, row_name = ''bar'', row_version = 1\<rparr>"
  using VersionedMixin_init_default_version [of "''Doc''" "[]" "PStr ''bar''"]
  by auto

subsection \<open>The lazy-value cache\<close>

lemma delattr_all_removes:
  "distinct ks \<Longrightarrow> set ks \<subseteq> fst ` set d \<Longrightarrow>
   delattr_all ks d = (Inr (), filter (\<lambda>(k, v). k \<notin> set ks) d)"
proof (induction ks arbitrary: d)
  case Nil
  then show ?case by simp
next
  case (Cons p ps)
  have sub: "set ps \<subseteq> fst ` set (AList.delete p d)"
    using Cons.prems by (force simp: AList.delete_eq)
  have "delattr_all (p # ps) d = delattr_all ps (AList.delete p d)"
    using Cons.prems by simp
  also have "\<dots> = (Inr (), filter (\<lambda>(k, v). k \<notin> set ps) (AList.delete p d))"
    using Cons.IH [OF _ sub] Cons.prems by simp
  also have "filter (\<lambda>(k, v). k \<notin> set ps) (AList.delete p d)
               = filter (\<lambda>(k, v). k \<notin> set (p # ps)) d"
    by (auto simp: AList.delete_eq intro: filter_cong)
  finally show ?case .
qed

lemma invalidate_all:
  "invalidate None self =
     (Inr (), self\<lparr>attrs := filter (\<lambda>(k, v). \<not> startswith k ''__lazy_'') (attrs self)\<rparr>)"
proof -
  let ?ks = "filter (\<lambda>name. startswith name ''__lazy_'') (dir_self self)"
  have d: "distinct ?ks"
    by (simp add: dir_self_def)
  have s: "set ?ks \<subseteq> fst ` set (attrs self)"
    by (auto simp: dir_self_def)
  have "filter (\<lambda>(k, v). k \<notin> set ?ks) (attrs self)
          = filter (\<lambda>(k, v). \<not> startswith k ''__lazy_'') (attrs self)"
    by (rule filter_cong) (auto simp: dir_self_def image_iff)
  then show ?thesis
    using delattr_all_removes [OF d s] by (simp add: invalidate_def)
qed

lemma map_of_filter_out:
  "\<not> P k \<Longrightarrow> map_of (filter (\<lambda>(k, v). P k) d) k = None"
  by (induction d) auto

text \<open>
  Claim C6. On an instance with nothing cached for \<open>f\<close>, where \<open>f\<close> returns \<open>v\<close>:
  the first read of the lazy property runs \<open>f\<close> and stores \<open>v\<close> in the attribute
  \<^verbatim>\<open>'__lazy_' + f.__name__\<close>; every later read returns the stored \<open>v\<close> and leaves the
  state as it is whatever function the property wraps, so \<open>f\<close> is not run again (and the
  state being unchanged, the same holds for the read after it); \<^verbatim>\<open>invalidate()\<close>
  returns normally and removes the attribute, and the read after it is again the result
  of running \<open>f\<close>, stored anew.
\<close>

theorem lazy_property_computes_once:
  assumes first: "map_of (attrs self) (''__lazy_'' @ f_name) = None"
    and f: "f self = (Inr v, self1)"
  shows "lazy_property f_name f self
           = (Inr v, self1\<lparr>attrs := AList.update (''__lazy_'' @ f_name) v (attrs self1)\<rparr>)
       \<and> map_of (attrs (snd (lazy_property f_name f self))) (''__lazy_'' @ f_name) = Some v
       \<and> (\<forall>g. lazy_property f_name g (snd (lazy_property f_name f self))
                = (Inr v, snd (lazy_property f_name f self)))
       \<and> (\<exists>inv. invalidate None (snd (lazy_property f_name f self)) = (Inr (), inv)
              \<and> map_of (attrs inv) (''__lazy_'' @ f_name) = None
              \<and> lazy_property f_name f inv
                  = (case f inv of
                       (Inl e, s) \<Rightarrow> (Inl e, s)
                     | (Inr v', s) \<Rightarrow>
                         (Inr v', s\<lparr>attrs := AList.update (''__lazy_'' @ f_name) v' (attrs s)\<rparr>)))"
proof -
  let ?k = "''__lazy_'' @ f_name"
  let ?cached = "self1\<lparr>attrs := AList.update ?k v (attrs self1)\<rparr>"
  let ?inv = "?cached\<lparr>attrs := filter (\<lambda>(k, v). \<not> startswith k ''__lazy_'') (attrs ?cached)\<rparr>"
  have read1: "lazy_property f_name f self = (Inr v, ?cached)"
    using first f by (simp add: lazy_property_def)
  have stored: "map_of (attrs ?cached) ?k = Some v"
    by (simp add: update_conv')
  have again: "lazy_property f_name g ?cached = (Inr v, ?cached)" for g
    using stored by (simp add: lazy_property_def)
  have inv: "invalidate None ?cached = (Inr (), ?inv)"
    by (rule invalidate_all)
  have gone: "map_of (attrs ?inv) ?k = None"
    using map_of_filter_out [of "\<lambda>k. \<not> startswith k ''__lazy_''" ?k]
    by (simp add: startswith_def)
  have recompute: "lazy_property f_name f ?inv
          = (case f ?inv of
               (Inl e, s) \<Rightarrow> (Inl e, s)
             | (Inr v', s) \<Rightarrow> (Inr v', s\<lparr>attrs := AList.update ?k v' (attrs s)\<rparr>))"
    using gone by (simp add: lazy_property_def Let_def split: prod.splits sum.splits)
  show ?thesis
    unfolding read1 snd_conv
    using stored again inv gone recompute by blast
qed


theorem lazy_property_computes_once_witness:
  "map_of (attrs \<lparr>classes = (\<lambda>c. []), heap = (\<lambda>a. []), next_addr = 0, attrs = []\<rparr>)
          (''__lazy_'' @ ''total'') = None
   \<and> lazy_property ''total''
         (\<lambda>s. (Inr (PInt (int (next_addr s))), s\<lparr>next_addr := Suc (next_addr s)\<rparr>))
         \<lparr>classes = (\<lambda>c. []), heap = (\<lambda>a. []), next_addr = 0, attrs = []\<rparr>
       = (Inr (PInt 0),
          \<lparr>classes = (\<lambda>c. []), heap = (\<lambda>a. []), next_addr = 1,
           attrs = [(''__lazy_total'', PInt 0)]\<rparr>)
   \<and> (\<forall>g. lazy_property ''total'' g
              \<lparr>classes = (\<lambda>c. []), heap = (\<lambda>a. []), next_addr = 1,
               attrs = [(''__lazy_total'', PInt 0)]\<rparr>
            = (Inr (PInt 0),
               \<lparr>classes = (\<lambda>c. []), heap = (\<lambda>a. []), next_addr = 1,
                attrs = [(''__lazy_total'', PInt 0)]\<rparr>))"
  using lazy_property_computes_once
    [of "\<lparr>classes = (\<lambda>c. []), heap = (\<lambda>a. []), next_addr = 0, attrs = []\<rparr>" "''total''"
        "\<lambda>s. (Inr (PInt (int (next_addr s))), s\<lparr>next_addr := Suc (next_addr s)\<rparr>)"
        "PInt 0"
        "\<lparr>classes = (\<lambda>c. []), heap = (\<lambda>a. []), next_addr = 1, attrs = []\<rparr>"]
  by auto

text \<open>
  Claim C8. \<^verbatim>\<open>invalidate(name)\<close> on an instance that has no attribute
  \<^verbatim>\<open>'__lazy_' + name\<close> returns normally and leaves the instance as it is: the
  \<^verbatim>\<open>hasattr\<close> guard skips the \<^verbatim>\<open>delattr\<close>, and no \<^verbatim>\<open>AttributeError\<close> reaches the caller.
\<close>

theorem invalidate_absent_is_noop:
  "\<not> hasattr self (''__lazy_'' @ name) \<Longrightarrow> invalidate (Some name) self = (Inr (), self)"
  by (simp add: invalidate_def)

theorem invalidate_absent_is_noop_witness:
  "\<not> hasattr \<lparr>classes = (\<lambda>c. []), heap = (\<lambda>a. []), next_addr = 0, attrs = [(''__lazy_parameters'', PRef 0)]\<rparr> (''__lazy_'' @ ''total'')
   \<and> invalidate (Some ''total'') \<lparr>classes = (\<lambda>c. []), heap = (\<lambda>a. []), next_addr = 0, attrs = [(''__lazy_parameters'', PRef 0)]\<rparr>
     = (Inr (), \<lparr>classes = (\<lambda>c. []), heap = (\<lambda>a. []), next_addr = 0, attrs = [(''__lazy_parameters'', PRef 0)]\<rparr>)"
  using invalidate_absent_is_noop [of "\<lparr>classes = (\<lambda>c. []), heap = (\<lambda>a. []), next_addr = 0, attrs = [(''__lazy_parameters'', PRef 0)]\<rparr>" "''total''"]
  by (simp add: hasattr_def)


subsection \<open>The parameter registry\<close>

lemma lookup_mro_owner:
  "lookup_mro cd ms f = Some (owner, params) \<Longrightarrow> map_of (cd owner) f = Some params"
  by (induction ms) (auto split: option.splits)

lemma lookup_mro_after_update:
  "lookup_mro cd ms f = Some (owner, params) \<Longrightarrow>
   lookup_mro (cd(owner := AList.update f v (cd owner))) ms f = Some (owner, v)"
proof (induction ms)
  case Nil
  then show ?case by simp
next
  case (Cons c cs)
  show ?case
  proof (cases "map_of (cd c) f")
    case None
    then have rest: "lookup_mro cd cs f = Some (owner, params)"
      using Cons.prems by simp
    then have "c \<noteq> owner"
      using None lookup_mro_owner [OF rest] by auto
    then show ?thesis
      using None Cons.IH [OF rest] by simp
  next
    case (Some ps)
    then have "c = owner"
      using Cons.prems by simp
    then show ?thesis
      by (simp add: update_conv')
  qed
qed

lemma lookup_mro_setattr_cls:
  "lookup_mro (setattr_cls cd cls f v) (mro cls) f = Some (k_id cls, v)"
  by (simp add: setattr_cls_def mro_def update_conv')

lemma find_first_of_filter:
  "filter P xs = p # ps \<Longrightarrow> find P xs = Some p"
  by (induction xs) (auto split: if_splits)

lemma register_parameter_call_duplicate:
  assumes reg: "registry_of cd (tcls_of rp cls) = Some params"
    and dup: "rp_name rp \<in> p_name ` set params"
  shows "\<exists>p. find (\<lambda>p. p_name p = rp_name rp) params = Some p
           \<and> register_parameter_call rp cls cd
               = (Inl (ParameterAlreadyDefined (rp_name rp) (p_cls p)), cd)"
proof -
  let ?tcls = "tcls_of rp cls"
  let ?field = "PARAMETER_REGISTRY @ k_name ?tcls"
  obtain owner where look: "lookup_mro cd (mro ?tcls) ?field = Some (owner, params)"
    using reg by (auto simp: registry_of_def)
  have has: "hasattr_cls cd ?tcls ?field"
    using look by (simp add: hasattr_cls_def)
  have "filter (\<lambda>p. p_name p = rp_name rp) params \<noteq> []"
    using dup by (auto simp: filter_empty_conv)
  then obtain p ps where found: "filter (\<lambda>p. p_name p = rp_name rp) params = p # ps"
    by (cases "filter (\<lambda>p. p_name p = rp_name rp) params") auto
  have first: "find (\<lambda>p. p_name p = rp_name rp) params = Some p"
    using found by (rule find_first_of_filter)
  have "register_parameter_call rp cls cd
          = (Inl (ParameterAlreadyDefined (rp_name rp) (p_cls p)), cd)"
    using has look found by (simp add: register_parameter_call_def Let_def)
  then show ?thesis
    using first by blast
qed

lemma register_parameter_call_appends:
  assumes ok: "register_parameter_call rp cls cd = (Inr (), cd')"
  shows "\<exists>params. registry_of cd' (tcls_of rp cls)
             = Some (params @ [\<lparr> p_section = k_name cls @ '':'' @ rp_section rp, p_name = rp_name rp,
                                 p_default = rp_default rp, p_type = rp_parameter_type rp,
                                 p_description = rp_description rp,
                                 p_cls = k_name (tcls_of rp cls) \<rparr>])
           \<and> rp_name rp \<notin> p_name ` set params
           \<and> (\<forall>old. registry_of cd (tcls_of rp cls) = Some old \<longrightarrow> params = old)"
proof -
  let ?tcls = "tcls_of rp cls"
  let ?field = "PARAMETER_REGISTRY @ k_name ?tcls"
  let ?cd1 = "if \<not> hasattr_cls cd ?tcls ?field
              then setattr_cls cd ?tcls ?field
                     (concat (parent_params_loop cd cls (parent_fields cd cls) {} []))
              else cd"
  let ?new = "\<lparr> p_section = k_name cls @ '':'' @ rp_section rp, p_name = rp_name rp,
                p_default = rp_default rp, p_type = rp_parameter_type rp,
                p_description = rp_description rp, p_cls = k_name ?tcls \<rparr>"
  have "lookup_mro ?cd1 (mro ?tcls) ?field \<noteq> None"
    by (auto simp: hasattr_cls_def lookup_mro_setattr_cls)
  then obtain owner params where look: "lookup_mro ?cd1 (mro ?tcls) ?field = Some (owner, params)"
    by auto
  have call: "register_parameter_call rp cls cd =
        (case filter (\<lambda>p. p_name p = rp_name rp) params of
           found0 # x \<Rightarrow> (Inl (ParameterAlreadyDefined (rp_name rp) (p_cls found0)), ?cd1)
         | [] \<Rightarrow> (Inr (), ?cd1(owner := AList.update ?field (params @ [?new]) (?cd1 owner))))"
    using look by (simp add: register_parameter_call_def Let_def split: list.splits)
  have none: "filter (\<lambda>p. p_name p = rp_name rp) params = []"
    using ok call by (cases "filter (\<lambda>p. p_name p = rp_name rp) params") auto
  have cd': "cd' = ?cd1(owner := AList.update ?field (params @ [?new]) (?cd1 owner))"
    using ok call none by simp
  have look': "lookup_mro cd' (mro ?tcls) ?field = Some (owner, params @ [?new])"
    unfolding cd' using look by (rule lookup_mro_after_update)
  have fresh: "rp_name rp \<notin> p_name ` set params"
    using none by (auto simp: filter_empty_conv)
  have same: "params = old" if "registry_of cd ?tcls = Some old" for old
  proof -
    have "hasattr_cls cd ?tcls ?field"
      using that by (auto simp: registry_of_def hasattr_cls_def)
    then show ?thesis
      using look that by (auto simp: registry_of_def)
  qed
  show ?thesis
    using look' fresh same by (auto simp: registry_of_def)
qed

text \<open>
  Claim C7. Whenever the registry of the owning class already holds a descriptor with the
  name, at whatever position and however it came there, the decorator call raises the
  \<^verbatim>\<open>ValueError\<close> \<^verbatim>\<open>'Parameter {} already defined in class {}'\<close>, naming the class of the
  first such descriptor, and leaves the registries as they were. And a call that returns
  normally leaves the owning class with its earlier registry (when it had one) followed by
  the new descriptor, the name being new to it: names once registered for a class stay in
  its registry through later registrations for that class, so that a second registration
  of a name fails also after others in between.
\<close>

theorem register_parameter_twice_fails:
  "(\<forall>params. registry_of cd (tcls_of rp cls) = Some params \<and> rp_name rp \<in> p_name ` set params \<longrightarrow>
      (\<exists>p. find (\<lambda>p. p_name p = rp_name rp) params = Some p
         \<and> register_parameter_call rp cls cd
             = (Inl (ParameterAlreadyDefined (rp_name rp) (p_cls p)), cd)
         \<and> is_ValueError (ParameterAlreadyDefined (rp_name rp) (p_cls p))))
   \<and> (\<forall>cd'. register_parameter_call rp cls cd = (Inr (), cd') \<longrightarrow>
      (\<exists>params. registry_of cd' (tcls_of rp cls)
             = Some (params @ [\<lparr> p_section = k_name cls @ '':'' @ rp_section rp, p_name = rp_name rp,
                                 p_default = rp_default rp, p_type = rp_parameter_type rp,
                                 p_description = rp_description rp,
                                 p_cls = k_name (tcls_of rp cls) \<rparr>])
           \<and> rp_name rp \<notin> p_name ` set params
           \<and> (\<forall>old. registry_of cd (tcls_of rp cls) = Some old \<longrightarrow> params = old)))"
proof (intro conjI allI impI)
  fix params
  assume "registry_of cd (tcls_of rp cls) = Some params \<and> rp_name rp \<in> p_name ` set params"
  then show "\<exists>p. find (\<lambda>p. p_name p = rp_name rp) params = Some p
         \<and> register_parameter_call rp cls cd
             = (Inl (ParameterAlreadyDefined (rp_name rp) (p_cls p)), cd)
         \<and> is_ValueError (ParameterAlreadyDefined (rp_name rp) (p_cls p))"
    using register_parameter_call_duplicate [of cd rp cls params] by auto
next
  fix cd'
  assume "register_parameter_call rp cls cd = (Inr (), cd')"
  then show "\<exists>params. registry_of cd' (tcls_of rp cls)
             = Some (params @ [\<lparr> p_section = k_name cls @ '':'' @ rp_section rp, p_name = rp_name rp,
                                 p_default = rp_default rp, p_type = rp_parameter_type rp,
                                 p_description = rp_description rp,
                                 p_cls = k_name (tcls_of rp cls) \<rparr>])
           \<and> rp_name rp \<notin> p_name ` set params
           \<and> (\<forall>old. registry_of cd (tcls_of rp cls) = Some old \<longrightarrow> params = old)"
    by (rule register_parameter_call_appends)
qed


theorem register_parameter_twice_fails_witness:
  "fst (register_parameter_call (register_parameter_init ''main'' ''a'' (PInt 1) None '''' None)
          \<lparr>k_id = 1, k_name = ''A'', k_bases = []\<rparr> (\<lambda>c. [])) = Inr ()
   \<and> fst (register_parameter_call (register_parameter_init ''main'' ''b'' (PInt 2) None '''' None)
          \<lparr>k_id = 1, k_name = ''A'', k_bases = []\<rparr>
          (snd (register_parameter_call (register_parameter_init ''main'' ''a'' (PInt 1) None '''' None)
            \<lparr>k_id = 1, k_name = ''A'', k_bases = []\<rparr> (\<lambda>c. [])))) = Inr ()
   \<and> register_parameter_call (register_parameter_init ''other'' ''a'' (PStr ''x'') None '''' None)
         \<lparr>k_id = 1, k_name = ''A'', k_bases = []\<rparr>
         (snd (register_parameter_call (register_parameter_init ''main'' ''b'' (PInt 2) None '''' None)
         \<lparr>k_id = 1, k_name = ''A'', k_bases = []\<rparr>
         (snd (register_parameter_call (register_parameter_init ''main'' ''a'' (PInt 1) None '''' None)
            \<lparr>k_id = 1, k_name = ''A'', k_bases = []\<rparr> (\<lambda>c. [])))))
       = (Inl (ParameterAlreadyDefined ''a'' ''A''),
          (snd (register_parameter_call (register_parameter_init ''main'' ''b'' (PInt 2) None '''' None)
         \<lparr>k_id = 1, k_name = ''A'', k_bases = []\<rparr>
         (snd (register_parameter_call (register_parameter_init ''main'' ''a'' (PInt 1) None '''' None)
            \<lparr>k_id = 1, k_name = ''A'', k_bases = []\<rparr> (\<lambda>c. []))))))"
proof -
  let ?A = "\<lparr>k_id = 1, k_name = ''A'', k_bases = []\<rparr>"
  let ?cda = "(snd (register_parameter_call (register_parameter_init ''main'' ''a'' (PInt 1) None '''' None)
            \<lparr>k_id = 1, k_name = ''A'', k_bases = []\<rparr> (\<lambda>c. [])))"
  let ?cdab = "(snd (register_parameter_call (register_parameter_init ''main'' ''b'' (PInt 2) None '''' None)
         \<lparr>k_id = 1, k_name = ''A'', k_bases = []\<rparr>
         (snd (register_parameter_call (register_parameter_init ''main'' ''a'' (PInt 1) None '''' None)
            \<lparr>k_id = 1, k_name = ''A'', k_bases = []\<rparr> (\<lambda>c. [])))))"
  have cda: "?cda = (\<lambda>c. [])(1 := [(''__parameter_defaults__A'',
       [\<lparr>p_section = ''A:main'', p_name = ''a'', p_default = PInt 1, p_type = TInt,
         p_description = '''', p_cls = ''A''\<rparr>])])"
    by (simp add: register_parameter_call_def register_parameter_init_def tcls_of_def
          hasattr_cls_def setattr_cls_def mro_def PARAMETER_REGISTRY_def parent_fields_def
          dir_cls_def)
  have one: "fst (register_parameter_call (register_parameter_init ''main'' ''a'' (PInt 1) None '''' None) ?A (\<lambda>c. [])) = Inr ()"
    by (simp add: register_parameter_call_def register_parameter_init_def tcls_of_def
          hasattr_cls_def setattr_cls_def mro_def PARAMETER_REGISTRY_def parent_fields_def
          dir_cls_def)
  have two: "fst (register_parameter_call (register_parameter_init ''main'' ''b'' (PInt 2) None '''' None) ?A ?cda) = Inr ()"
    unfolding cda
    by (simp add: register_parameter_call_def register_parameter_init_def tcls_of_def
          hasattr_cls_def mro_def PARAMETER_REGISTRY_def)
  have reg: "registry_of ?cdab (tcls_of (register_parameter_init ''other'' ''a'' (PStr ''x'') None '''' None) ?A)
        = Some [\<lparr>p_section = ''A:main'', p_name = ''a'', p_default = PInt 1, p_type = TInt,
                  p_description = '''', p_cls = ''A''\<rparr>,
                \<lparr>p_section = ''A:main'', p_name = ''b'', p_default = PInt 2, p_type = TInt,
                  p_description = '''', p_cls = ''A''\<rparr>]"
    unfolding cda
    by (simp add: registry_of_def register_parameter_call_def register_parameter_init_def
          tcls_of_def hasattr_cls_def mro_def PARAMETER_REGISTRY_def)
  have three: "register_parameter_call (register_parameter_init ''other'' ''a'' (PStr ''x'') None '''' None) ?A ?cdab
       = (Inl (ParameterAlreadyDefined ''a'' ''A''), ?cdab)"
    using register_parameter_twice_fails [of ?cdab "register_parameter_init ''other'' ''a'' (PStr ''x'') None '''' None" ?A] reg
    by (auto simp: register_parameter_init_def)
  show ?thesis
    using one two three by simp
qed

text \<open>
  The loop of the decorator removes, from every registry it merges, the names an earlier
  registry had: from registries without repeated names it builds a list without repeated
  names.
\<close>

lemma parent_params_loop_distinct:
  assumes "\<forall>f \<in> set fs. distinct (map p_name (getattr_cls cd cls f))"
    and "distinct (map p_name (concat acc))"
    and "p_name ` set (concat acc) \<subseteq> names"
  shows "distinct (map p_name (concat (parent_params_loop cd cls fs names acc)))"
  using assms
proof (induction fs arbitrary: names acc)
  case Nil
  then show ?case by simp
next
  case (Cons f fs)
  let ?ps = "getattr_cls cd cls f"
  let ?acc = "acc @ [filter (\<lambda>p. p_name p \<notin> names) ?ps]"
  have d: "distinct (map p_name ?ps)"
    using Cons.prems(1) by simp
  have disj: "p_name ` set (concat acc) \<inter> p_name ` set (filter (\<lambda>p. p_name p \<notin> names) ?ps) = {}"
    using Cons.prems(3) by fastforce
  have "distinct (map p_name (concat ?acc))"
    using Cons.prems(2) d disj by (simp add: distinct_map_filter)
  moreover have "p_name ` set (concat ?acc) \<subseteq> names \<union> set (map p_name ?ps)"
    using Cons.prems(3) by auto
  moreover have "\<forall>g \<in> set fs. distinct (map p_name (getattr_cls cd cls g))"
    using Cons.prems(1) by simp
  ultimately show ?case
    using Cons.IH [of ?acc "names \<union> set (map p_name ?ps)"] by (simp add: Let_def)
qed

text \<open>
  Claim C3. The claim asks for exactly one descriptor per name. Class \<open>A\<close> registers
  \<^verbatim>\<open>a\<close>, its subclass \<open>B\<close> registers \<^verbatim>\<open>b\<close>, and \<open>C\<close>, a subclass of \<open>B\<close>, registers
  nothing; the three names are distinct. \<open>C\<close> has no registry of its own, so
  \<^verbatim>\<open>registered_parameters()\<close> builds one from the registries of \<open>A\<close> (which holds
  \<^verbatim>\<open>a\<close>) and of \<open>B\<close> (which holds \<^verbatim>\<open>a\<close> and \<^verbatim>\<open>b\<close>) with a set of seen names that is
  never filled: the result has \<^verbatim>\<open>a\<close> twice. For \<open>B\<close>, whose registry the decorator
  built, each name is there once.
\<close>

theorem registered_parameters_repeats_inherited:
  "map p_name (fst (registered_parameters \<lparr>k_id = 3, k_name = ''C'', k_bases = [2, 1]\<rparr>
      (snd (register_parameter_call (register_parameter_init ''main'' ''b'' (PInt 2) None '''' None)
              \<lparr>k_id = 2, k_name = ''B'', k_bases = [1]\<rparr>
         (snd (register_parameter_call (register_parameter_init ''main'' ''a'' (PInt 1) None '''' None)
                 \<lparr>k_id = 1, k_name = ''A'', k_bases = []\<rparr> (\<lambda>c. [])))))))
     = [''a'', ''a'', ''b'']
   \<and> map p_name (fst (registered_parameters \<lparr>k_id = 2, k_name = ''B'', k_bases = [1]\<rparr>
      (snd (register_parameter_call (register_parameter_init ''main'' ''b'' (PInt 2) None '''' None)
              \<lparr>k_id = 2, k_name = ''B'', k_bases = [1]\<rparr>
         (snd (register_parameter_call (register_parameter_init ''main'' ''a'' (PInt 1) None '''' None)
                 \<lparr>k_id = 1, k_name = ''A'', k_bases = []\<rparr> (\<lambda>c. [])))))))
     = [''a'', ''b'']"
  by (simp add: registered_parameters_def register_parameter_call_def register_parameter_init_def
        tcls_of_def hasattr_cls_def getattr_cls_def setattr_cls_def mro_def PARAMETER_REGISTRY_def
        parent_fields_def dir_cls_def startswith_def)

subsection \<open>The parametrized record\<close>

lemma find_None_no_name:
  "(find (\<lambda>p. p_name p = name) ps = None) = (name \<notin> p_name ` set ps)"
  by (auto simp: find_None_iff)

lemma set_unregistered:
  assumes "name \<notin> p_name ` set (fst (registered_parameters cls (classes self)))"
  shows "ParametrizedMixin_set cls name v self
           = (Inl (ParameterNotRegistered name (k_name cls)),
              self\<lparr>classes := snd (registered_parameters cls (classes self))\<rparr>)"
proof -
  obtain ps cd where rp: "registered_parameters cls (classes self) = (ps, cd)"
    by (cases "registered_parameters cls (classes self)")
  have "find (\<lambda>p. p_name p = name) ps = None"
    using assms rp by (simp add: find_None_no_name)
  then show ?thesis
    using rp by (simp add: ParametrizedMixin_set_def parameter_type_def)
qed

lemma set_type_mismatch:
  assumes "find (\<lambda>p. p_name p = name) (fst (registered_parameters cls (classes self))) = Some p"
    and "\<not> isinstance v (p_type p)"
  shows "ParametrizedMixin_set cls name v self
           = (Inl (NotSameType v (p_type p)),
              self\<lparr>classes := snd (registered_parameters cls (classes self))\<rparr>)"
proof -
  obtain ps cd where rp: "registered_parameters cls (classes self) = (ps, cd)"
    by (cases "registered_parameters cls (classes self)")
  have "find (\<lambda>p. p_name p = name) ps = Some p"
    using assms(1) rp by simp
  then show ?thesis
    using rp assms(2)
    by (simp add: ParametrizedMixin_set_def parameter_type_def isinstance_NoneType_def)
qed

lemma params_document_classes:
  "params_document (self\<lparr>classes := cd\<rparr>) = params_document self"
  by (simp add: params_document_def split: pyval.splits)

text \<open>
  Claim C4. \<^verbatim>\<open>set(name, value)\<close> raises \<^verbatim>\<open>ValueError\<close> when no descriptor of
  \<^verbatim>\<open>registered_parameters()\<close> has the name, and when the first descriptor with the name
  has a type of which the value is no instance (\<^verbatim>\<open>isinstance\<close>, so a \<^verbatim>\<open>bool\<close> passes
  for \<^verbatim>\<open>int\<close>). In both cases the instance's attributes and the store of dict objects
  are as before, and so is the document that \<^verbatim>\<open>params\<close> holds.
\<close>

theorem set_rejects_and_keeps_document:
  "(name \<notin> p_name ` set (fst (registered_parameters cls (classes self))) \<longrightarrow>
      fst (ParametrizedMixin_set cls name v self) = Inl (ParameterNotRegistered name (k_name cls))
      \<and> is_ValueError (ParameterNotRegistered name (k_name cls))
      \<and> attrs (snd (ParametrizedMixin_set cls name v self)) = attrs self
      \<and> heap (snd (ParametrizedMixin_set cls name v self)) = heap self
      \<and> params_document (snd (ParametrizedMixin_set cls name v self)) = params_document self)
   \<and> (\<forall>p. find (\<lambda>p. p_name p = name) (fst (registered_parameters cls (classes self))) = Some p
           \<and> \<not> isinstance v (p_type p) \<longrightarrow>
      fst (ParametrizedMixin_set cls name v self) = Inl (NotSameType v (p_type p))
      \<and> is_ValueError (NotSameType v (p_type p))
      \<and> attrs (snd (ParametrizedMixin_set cls name v self)) = attrs self
      \<and> heap (snd (ParametrizedMixin_set cls name v self)) = heap self
      \<and> params_document (snd (ParametrizedMixin_set cls name v self)) = params_document self)"
  by (simp add: set_unregistered set_type_mismatch params_document_classes)

theorem set_rejects_and_keeps_document_witness:
  "fst (ParametrizedMixin_set \<lparr>k_id = 1, k_name = ''A'', k_bases = []\<rparr> ''q'' (PInt 9)
         \<lparr>classes = (\<lambda>c. if c = 1 then [(''__parameter_defaults__A'',
                        [\<lparr>p_section = ''A:main'', p_name = ''p'', p_default = PInt 5, p_type = TInt,
                          p_description = '''', p_cls = ''A''\<rparr>])] else []),
          heap = (\<lambda>a. if a = 0 then [(''p'', PInt 7)] else []), next_addr = 1,
          attrs = [(''params'', PRef 0)]\<rparr>)
     = Inl (ParameterNotRegistered ''q'' ''A'')
   \<and> params_document (snd (ParametrizedMixin_set \<lparr>k_id = 1, k_name = ''A'', k_bases = []\<rparr> ''q'' (PInt 9)
         \<lparr>classes = (\<lambda>c. if c = 1 then [(''__parameter_defaults__A'',
                        [\<lparr>p_section = ''A:main'', p_name = ''p'', p_default = PInt 5, p_type = TInt,
                          p_description = '''', p_cls = ''A''\<rparr>])] else []),
          heap = (\<lambda>a. if a = 0 then [(''p'', PInt 7)] else []), next_addr = 1,
          attrs = [(''params'', PRef 0)]\<rparr>))
     = Some [(''p'', PInt 7)]
   \<and> fst (ParametrizedMixin_set \<lparr>k_id = 1, k_name = ''A'', k_bases = []\<rparr> ''p'' (PStr ''x'')
         \<lparr>classes = (\<lambda>c. if c = 1 then [(''__parameter_defaults__A'',
                        [\<lparr>p_section = ''A:main'', p_name = ''p'', p_default = PInt 5, p_type = TInt,
                          p_description = '''', p_cls = ''A''\<rparr>])] else []),
          heap = (\<lambda>a. if a = 0 then [(''p'', PInt 7)] else []), next_addr = 1,
          attrs = [(''params'', PRef 0)]\<rparr>)
     = Inl (NotSameType (PStr ''x'') TInt)
   \<and> params_document (snd (ParametrizedMixin_set \<lparr>k_id = 1, k_name = ''A'', k_bases = []\<rparr> ''p'' (PStr ''x'')
         \<lparr>classes = (\<lambda>c. if c = 1 then [(''__parameter_defaults__A'',
                        [\<lparr>p_section = ''A:main'', p_name = ''p'', p_default = PInt 5, p_type = TInt,
                          p_description = '''', p_cls = ''A''\<rparr>])] else []),
          heap = (\<lambda>a. if a = 0 then [(''p'', PInt 7)] else []), next_addr = 1,
          attrs = [(''params'', PRef 0)]\<rparr>))
     = Some [(''p'', PInt 7)]"
  using set_rejects_and_keeps_document
    [of "''q''" "\<lparr>k_id = 1, k_name = ''A'', k_bases = []\<rparr>"
        "\<lparr>classes = (\<lambda>c. if c = 1 then [(''__parameter_defaults__A'',
                        [\<lparr>p_section = ''A:main'', p_name = ''p'', p_default = PInt 5, p_type = TInt,
                          p_description = '''', p_cls = ''A''\<rparr>])] else []),
          heap = (\<lambda>a. if a = 0 then [(''p'', PInt 7)] else []), next_addr = 1,
          attrs = [(''params'', PRef 0)]\<rparr>" "PInt 9"]
    set_rejects_and_keeps_document
    [of "''p''" "\<lparr>k_id = 1, k_name = ''A'', k_bases = []\<rparr>"
        "\<lparr>classes = (\<lambda>c. if c = 1 then [(''__parameter_defaults__A'',
                        [\<lparr>p_section = ''A:main'', p_name = ''p'', p_default = PInt 5, p_type = TInt,
                          p_description = '''', p_cls = ''A''\<rparr>])] else []),
          heap = (\<lambda>a. if a = 0 then [(''p'', PInt 7)] else []), next_addr = 1,
          attrs = [(''params'', PRef 0)]\<rparr>" "PStr ''x''"]
  by (simp add: registered_parameters_def hasattr_cls_def getattr_cls_def mro_def
        PARAMETER_REGISTRY_def isinstance_def params_document_def getattr_column_def)

text \<open>
  Claim C5. The claim asks that a default the caller supplies is returned when the name
  is absent from the document, falsy values included. On an instance with an empty
  document, of a class that registers \<^verbatim>\<open>p\<close> with default 5, \<^verbatim>\<open>get('p', 0)\<close>,
  \<^verbatim>\<open>get('p', False)\<close> and \<^verbatim>\<open>get('p', '')\<close> return the registered 5 (\<^verbatim>\<open>default or
  ...\<close> drops a false default), while \<^verbatim>\<open>get('p', 7)\<close> returns 7.
\<close>

theorem get_ignores_falsy_default:
  "fst (ParametrizedMixin_get \<lparr>k_id = 1, k_name = ''A'', k_bases = []\<rparr> ''p'' (PInt 0)
         \<lparr>classes = (\<lambda>c. if c = 1 then [(''__parameter_defaults__A'',
                        [\<lparr>p_section = ''A:main'', p_name = ''p'', p_default = PInt 5, p_type = TInt,
                          p_description = '''', p_cls = ''A''\<rparr>])] else []),
          heap = (\<lambda>a. []), next_addr = 0, attrs = []\<rparr>) = Inr (PInt 5)
   \<and> fst (ParametrizedMixin_get \<lparr>k_id = 1, k_name = ''A'', k_bases = []\<rparr> ''p'' (PBool False)
         \<lparr>classes = (\<lambda>c. if c = 1 then [(''__parameter_defaults__A'',
                        [\<lparr>p_section = ''A:main'', p_name = ''p'', p_default = PInt 5, p_type = TInt,
                          p_description = '''', p_cls = ''A''\<rparr>])] else []),
          heap = (\<lambda>a. []), next_addr = 0, attrs = []\<rparr>) = Inr (PInt 5)
   \<and> fst (ParametrizedMixin_get \<lparr>k_id = 1, k_name = ''A'', k_bases = []\<rparr> ''p'' (PStr '''')
         \<lparr>classes = (\<lambda>c. if c = 1 then [(''__parameter_defaults__A'',
                        [\<lparr>p_section = ''A:main'', p_name = ''p'', p_default = PInt 5, p_type = TInt,
                          p_description = '''', p_cls = ''A''\<rparr>])] else []),
          heap = (\<lambda>a. []), next_addr = 0, attrs = []\<rparr>) = Inr (PInt 5)
   \<and> fst (ParametrizedMixin_get \<lparr>k_id = 1, k_name = ''A'', k_bases = []\<rparr> ''p'' (PInt 7)
         \<lparr>classes = (\<lambda>c. if c = 1 then [(''__parameter_defaults__A'',
                        [\<lparr>p_section = ''A:main'', p_name = ''p'', p_default = PInt 5, p_type = TInt,
                          p_description = '''', p_cls = ''A''\<rparr>])] else []),
          heap = (\<lambda>a. []), next_addr = 0, attrs = []\<rparr>) = Inr (PInt 7)"
  by (simp add: ParametrizedMixin_get_def parameters_def lazy_property_def parameters_body_def
        getattr_column_def parameter_default_def registered_parameters_def hasattr_cls_def
        getattr_cls_def mro_def PARAMETER_REGISTRY_def)

subsection \<open>New versions\<close>




lemma map_of_snoc:
  "map_of (xs @ [(key, v)]) a
     = (case map_of xs a of Some w \<Rightarrow> Some w | None \<Rightarrow> if a = key then Some v else None)"
  by (induction xs) auto









end
